theory Spec2Isabelle
  imports Main "HOL-Library.Word" "HOL-Library.Sublist"
begin

section \<open>The Credentials API construct (cdk/lib/credentials-api.ts)\<close>

text \<open>
  The construct provisions two Lambda functions (registration and discoverable
  credentials), the permissions each of them is granted, and an HTTP API whose routes
  forward to them. The embedding keeps the shape of the TypeScript: every object the
  constructor builds is a record, every call that attaches a permission appends one
  entry to the list of grants, and \<open>addRoutes\<close> appends to the routes of the
  HTTP API or throws. An exception is the \<open>Inl\<close> branch of a sum. Strings are
  \<open>string\<close>; the only character the code inspects is the ASCII slash.
\<close>

subsection \<open>String replacement\<close>

text \<open>
  \<^verbatim>\<open>s.replace(/\/$/, '')\<close>: the pattern has no flag, so \<open>$\<close> matches at the end
  of the input only and at most one slash, the last character, is removed.
\<close>

definition replace_trailing_slash :: "string \<Rightarrow> string" where
  "replace_trailing_slash s =
     (if s \<noteq> [] \<and> last s = CHR ''/'' then butlast s else s)"

text \<open>
  \<^verbatim>\<open>s.replace(/^\//, '')\<close>: at most one slash, the first character, is removed.
\<close>

definition replace_leading_slash :: "string \<Rightarrow> string" where
  "replace_leading_slash s =
     (case s of [] \<Rightarrow> [] | c # cs \<Rightarrow> if c = CHR ''/'' then cs else s)"

subsection \<open>Injected constructs\<close>

text \<open>
  \<open>Parameters\<close>, \<open>SessionStore\<close> and \<open>UserPool\<close> are declared in other modules of
  the stack; the construct reads only the members below. A DynamoDB table is known by
  its \<open>tableName\<close>, a Cognito user pool by its \<open>userPoolId\<close>, a parameter of the
  Parameter Store by its \<open>parameterName\<close>.
\<close>

record Table =
  tableName :: string

record StringParameter =
  parameterName :: string

record CognitoUserPool =
  userPoolId :: string

record Parameters =
  rpOriginParameter :: StringParameter

record SessionStore =
  sessionTable :: Table

record UserPool =
  userPool :: CognitoUserPool
  credentialTable :: Table

subsection \<open>Lambda functions\<close>

datatype Architecture = ARM_64 | X86_64

datatype Duration = Seconds nat | Days nat

text \<open>
  A \<open>RustFunction\<close>: the id it is created under and the properties the constructor
  passes. The \<open>environment\<close> object literal is an association list in the order the
  keys are written.
\<close>

record RustFunction =
  constructId :: string
  manifestPath :: string
  binaryName :: string
  architecture :: Architecture
  environment :: "(string \<times> string) list"
  memorySize :: nat
  timeout :: Duration

subsection \<open>Grants\<close>

text \<open>
  One entry per permission call of the constructor:
  \<open>parameter.grantRead(fn)\<close>, \<open>table.grantReadWriteData(fn)\<close> and
  \<open>userPool.grant(fn, ...actions)\<close>. The grantee is the Lambda function passed.
\<close>

datatype Grant =
    GrantRead StringParameter RustFunction
  | GrantReadWriteData Table RustFunction
  | GrantActions CognitoUserPool RustFunction "string list"

subsection \<open>HTTP API\<close>

datatype HttpMethod =
    HttpMethod_ANY | HttpMethod_DELETE | HttpMethod_GET | HttpMethod_HEAD
  | HttpMethod_OPTIONS | HttpMethod_PATCH | HttpMethod_POST | HttpMethod_PUT

datatype CorsHttpMethod =
    CorsHttpMethod_ANY | CorsHttpMethod_DELETE | CorsHttpMethod_GET | CorsHttpMethod_HEAD
  | CorsHttpMethod_OPTIONS | CorsHttpMethod_PATCH | CorsHttpMethod_POST | CorsHttpMethod_PUT

record CorsPreflightOptions =
  allowHeaders :: "string list"
  allowMethods :: "CorsHttpMethod list"
  allowOrigins :: "string list"
  maxAge :: Duration

record HttpLambdaIntegration =
  integrationId :: string
  handler :: RustFunction

text \<open>A route of the HTTP API: its route key (method and path) and its integration.\<close>

record HttpRoute =
  routeMethod :: HttpMethod
  routePath :: string
  integration :: HttpLambdaIntegration

record HttpStage =
  url :: string

record HttpApi =
  description :: string
  createDefaultStage :: bool
  corsPreflight :: CorsPreflightOptions
  defaultStage :: "HttpStage option"
  routes :: "HttpRoute list"

text \<open>
  \<open>new HttpApi(scope, id, props)\<close>. The default stage exists exactly when
  \<open>createDefaultStage\<close> is set. Its URL is a token that the deployment resolves;
  here it is the parameter \<open>stageUrl\<close>.
\<close>

definition HttpApi_constructor ::
  "string \<Rightarrow> string \<Rightarrow> bool \<Rightarrow> CorsPreflightOptions \<Rightarrow> HttpApi" where
  "HttpApi_constructor stageUrl descr createStage cors =
     \<lparr>description = descr,
      createDefaultStage = createStage,
      corsPreflight = cors,
      defaultStage = (if createStage then Some \<lparr>url = stageUrl\<rparr> else None),
      routes = []\<rparr>"

text \<open>
  The exceptions that matter here: the \<open>TypeError\<close> of reading a member of
  \<open>undefined\<close>, and the error with which the HTTP API library refuses a route path.
\<close>

datatype JsError = TypeError | RoutePathError

text \<open>\<open>s.startsWith('/')\<close> and \<open>s.endsWith('/')\<close>.\<close>

definition startsWith_slash :: "string \<Rightarrow> bool" where
  "startsWith_slash s = (case s of [] \<Rightarrow> False | c # _ \<Rightarrow> c = CHR ''/'')"

definition endsWith_slash :: "string \<Rightarrow> bool" where
  "endsWith_slash s = (s \<noteq> [] \<and> last s = CHR ''/'')"

text \<open>
  The route key of the library accepts the path \<open>/\<close> and every path that starts
  with a slash and does not end with one; for any other path it throws
  (``A route path must always start with a "/" and not end with a "/"'').
\<close>

definition valid_route_path :: "string \<Rightarrow> bool" where
  "valid_route_path p = (p = ''/'' \<or> (startsWith_slash p \<and> \<not> endsWith_slash p))"

text \<open>
  \<open>api.addRoutes({ path, methods, integration })\<close> creates one route per method
  listed, all with the same path and integration. Each route builds its route key from
  the path, so the call throws as soon as there is a method and the path is refused.
\<close>

definition addRoutes ::
  "HttpApi \<Rightarrow> string \<Rightarrow> HttpMethod list \<Rightarrow> HttpLambdaIntegration \<Rightarrow> JsError + HttpApi" where
  "addRoutes api p ms i =
     (if ms = [] \<or> valid_route_path p
      then Inr (api\<lparr>routes := routes api @
             map (\<lambda>m. \<lparr>routeMethod = m, routePath = p, integration = i\<rparr>) ms\<rparr>)
      else Inl RoutePathError)"

subsection \<open>The construct\<close>

record CredentialsApiProps =
  basePath :: string
  parameters :: Parameters
  sessionStore :: SessionStore
  userPool :: UserPool
  allowOrigins :: "string list"

record CredentialsApi =
  props :: CredentialsApiProps
  registrationLambda :: RustFunction
  discoverableLambda :: RustFunction
  credentialsApi :: HttpApi
  grants :: "Grant list"

text \<open>
  The constructor runs top to bottom; its statements are given one definition per
  group, in the order of the source. First the two locals \<open>registrationBasePath\<close> and
  \<open>discoverableBasePath\<close> (lines 52 and 53).
\<close>

definition registrationBasePath :: "CredentialsApiProps \<Rightarrow> string" where
  "registrationBasePath p = replace_trailing_slash (basePath p) @ ''/registration/''"

definition discoverableBasePath :: "CredentialsApiProps \<Rightarrow> string" where
  "discoverableBasePath p = replace_trailing_slash (basePath p) @ ''/discoverable/''"

text \<open>
  \<open>new RustFunction(this, 'RegistrationLambda', ...)\<close> (lines 55 to 68).
  \<open>path.join('lambda', 'authentication', 'Cargo.toml')\<close> joins its three segments
  with the separator.
\<close>

definition new_RegistrationLambda :: "CredentialsApiProps \<Rightarrow> RustFunction" where
  "new_RegistrationLambda p =
     \<lparr>constructId = ''RegistrationLambda'',
      manifestPath = ''lambda/authentication/Cargo.toml'',
      binaryName = ''registration'',
      architecture = ARM_64,
      environment =
        [(''BASE_PATH'', registrationBasePath p),
         (''SESSION_TABLE_NAME'', tableName (sessionTable (sessionStore p))),
         (''USER_POOL_ID'', userPoolId (UserPool.userPool (CredentialsApiProps.userPool p))),
         (''CREDENTIAL_TABLE_NAME'',
            tableName (credentialTable (CredentialsApiProps.userPool p))),
         (''RP_ORIGIN_PARAMETER_PATH'', parameterName (rpOriginParameter (parameters p)))],
      memorySize = 128,
      timeout = Seconds 5\<rparr>"

text \<open>\<open>new RustFunction(this, 'DiscoverableLambda', ...)\<close> (lines 79 to 90).\<close>

definition new_DiscoverableLambda :: "CredentialsApiProps \<Rightarrow> RustFunction" where
  "new_DiscoverableLambda p =
     \<lparr>constructId = ''DiscoverableLambda'',
      manifestPath = ''lambda/authentication/Cargo.toml'',
      binaryName = ''discoverable'',
      architecture = ARM_64,
      environment =
        [(''BASE_PATH'', discoverableBasePath p),
         (''SESSION_TABLE_NAME'', tableName (sessionTable (sessionStore p))),
         (''RP_ORIGIN_PARAMETER_PATH'', parameterName (rpOriginParameter (parameters p)))],
      memorySize = 128,
      timeout = Seconds 5\<rparr>"

text \<open>
  The permission calls, in the order of the source: four for the registration Lambda
  (lines 69 to 77), two for the discoverable Lambda (lines 91 and 92).
\<close>

definition constructor_grants :: "CredentialsApiProps \<Rightarrow> Grant list" where
  "constructor_grants p =
     [GrantRead (rpOriginParameter (parameters p)) (new_RegistrationLambda p),
      GrantReadWriteData (sessionTable (sessionStore p)) (new_RegistrationLambda p),
      GrantReadWriteData (credentialTable (CredentialsApiProps.userPool p))
        (new_RegistrationLambda p),
      GrantActions (UserPool.userPool (CredentialsApiProps.userPool p))
        (new_RegistrationLambda p)
        [''cognito-idp:AdminCreateUser'',
         ''cognito-idp:AdminSetUserPassword'',
         ''cognito-idp:ListUsers''],
      GrantRead (rpOriginParameter (parameters p)) (new_DiscoverableLambda p),
      GrantReadWriteData (sessionTable (sessionStore p)) (new_DiscoverableLambda p)]"

text \<open>
  The constructor as a whole. The Lambda functions and their grants are made before the
  HTTP API; the two \<open>addRoutes\<close> calls come last (lines 104 to 113), and when one of
  them throws the constructor throws and there is no instance.
\<close>

definition CredentialsApi_constructor ::
  "string \<Rightarrow> CredentialsApiProps \<Rightarrow> JsError + CredentialsApi" where
  "CredentialsApi_constructor stageUrl p =
     (let registration = new_RegistrationLambda p;
          discoverable = new_DiscoverableLambda p;
          api0 = HttpApi_constructor stageUrl ''API to manage credentials'' True
            \<lparr>allowHeaders = [''Content-Type''],
             allowMethods = [CorsHttpMethod_POST],
             allowOrigins = CredentialsApiProps.allowOrigins p,
             maxAge = Days 1\<rparr>
      in case addRoutes api0 (registrationBasePath p @ ''{proxy+}'') [HttpMethod_POST]
                \<lparr>integrationId = ''Registration'', handler = registration\<rparr> of
           Inl e \<Rightarrow> Inl e
         | Inr api1 \<Rightarrow>
            (case addRoutes api1 (discoverableBasePath p @ ''{proxy+}'') [HttpMethod_POST]
                    \<lparr>integrationId = ''Discoverable'', handler = discoverable\<rparr> of
               Inl e \<Rightarrow> Inl e
             | Inr api2 \<Rightarrow>
                 Inr \<lparr>props = p,
                      registrationLambda = registration,
                      discoverableLambda = discoverable,
                      credentialsApi = api2,
                      grants = constructor_grants p\<rparr>))"

text \<open>The getter \<open>basePath\<close> of the construct.\<close>

definition get_basePath :: "CredentialsApi \<Rightarrow> string" where
  "get_basePath c = replace_trailing_slash (basePath (props c))"

text \<open>
  The getter \<open>internalUrl\<close>. The source asserts that the default stage is defined
  (\<open>defaultStage!\<close>); reading \<open>url\<close> of an undefined stage throws a
  \<open>TypeError\<close>.
\<close>

definition get_internalUrl :: "CredentialsApi \<Rightarrow> JsError + string" where
  "get_internalUrl c =
     (case defaultStage (credentialsApi c) of
        None \<Rightarrow> Inl TypeError
      | Some stage \<Rightarrow> Inr (url stage @ replace_leading_slash (basePath (props c))))"

text \<open>
  \<open>new CredentialsApi(scope, id, props).basePath\<close> and
  \<open>new CredentialsApi(scope, id, props).internalUrl\<close>: the construction followed by
  the getter; an exception of either is the exception of the whole.
\<close>

definition basePath_of :: "string \<Rightarrow> CredentialsApiProps \<Rightarrow> JsError + string" where
  "basePath_of stageUrl p =
     (case CredentialsApi_constructor stageUrl p of
        Inl e \<Rightarrow> Inl e
      | Inr c \<Rightarrow> Inr (get_basePath c))"

definition internalUrl_of :: "string \<Rightarrow> CredentialsApiProps \<Rightarrow> JsError + string" where
  "internalUrl_of stageUrl p =
     (case CredentialsApi_constructor stageUrl p of
        Inl e \<Rightarrow> Inl e
      | Inr c \<Rightarrow> get_internalUrl c)"

subsection \<open>Routing of requests\<close>

text \<open>
  How the routes are read when a request arrives is the work of the HTTP API service, not
  of the construct. The part the construct relies on: a route path that ends in the greedy
  variable \<open>{proxy+}\<close> serves every request path that extends the text before the
  variable by at least one character; any other route path serves only itself. The text
  before the variable is compared literally. A route serves the method of its route key,
  and every method when that is \<open>ANY\<close>.
\<close>

definition greedy_prefix :: "string \<Rightarrow> string option" where
  "greedy_prefix rp =
     (if suffix ''{proxy+}'' rp then Some (take (length rp - length ''{proxy+}'') rp) else None)"

definition matches_route :: "HttpRoute \<Rightarrow> HttpMethod \<Rightarrow> string \<Rightarrow> bool" where
  "matches_route r m reqPath \<longleftrightarrow>
     (routeMethod r = m \<or> routeMethod r = HttpMethod_ANY) \<and>
     (case greedy_prefix (routePath r) of
        Some pre \<Rightarrow> strict_prefix pre reqPath
      | None \<Rightarrow> routePath r = reqPath)"

text \<open>The handlers of all routes that serve a request, in the order of the routes.\<close>

definition route_request :: "HttpApi \<Rightarrow> HttpMethod \<Rightarrow> string \<Rightarrow> RustFunction list" where
  "route_request api m reqPath =
     map (\<lambda>r. handler (integration r)) (filter (\<lambda>r. matches_route r m reqPath) (routes api))"

subsection \<open>Reading the grants\<close>

fun grantee :: "Grant \<Rightarrow> RustFunction" where
  "grantee (GrantRead _ f) = f"
| "grantee (GrantReadWriteData _ f) = f"
| "grantee (GrantActions _ f _) = f"

text \<open>The grants of a list that a Lambda function has received.\<close>

definition grants_of :: "Grant list \<Rightarrow> RustFunction \<Rightarrow> Grant list" where
  "grants_of gs f = filter (\<lambda>g. grantee g = f) gs"

text \<open>The user pool actions a grant carries; only \<open>userPool.grant\<close> carries any.\<close>

fun userPoolActions :: "Grant \<Rightarrow> string list" where
  "userPoolActions (GrantActions _ _ as) = as"
| "userPoolActions _ = []"

subsection \<open>Reading the environment\<close>

text \<open>
  The specification names what the core is configured with, not the variables that carry
  it. A reading says, for the name of a variable, which item the variable carries; an
  environment supplies an item under a reading when one of its variables carries it.
\<close>

datatype ConfigItem =
    BasePathPrefix | SessionStoreLocation | IdentityDirectoryLocation
  | CredentialStoreLocation | RelyingPartyOrigin | SessionTtl

definition supplies_under ::
  "(string \<Rightarrow> ConfigItem option) \<Rightarrow> RustFunction \<Rightarrow> ConfigItem \<Rightarrow> bool" where
  "supplies_under reading f item \<longleftrightarrow>
     Some item \<in> set (map (\<lambda>kv. reading (fst kv)) (environment f))"

text \<open>
  The reading of the five variables the construct sets, by what it assigns to each.
  \<open>RP_ORIGIN_PARAMETER_PATH\<close> carries the relying-party origin by reference: the name
  of the parameter that holds it.
\<close>

definition config_item :: "string \<Rightarrow> ConfigItem option" where
  "config_item k =
     (if k = ''BASE_PATH'' then Some BasePathPrefix
      else if k = ''SESSION_TABLE_NAME'' then Some SessionStoreLocation
      else if k = ''USER_POOL_ID'' then Some IdentityDirectoryLocation
      else if k = ''CREDENTIAL_TABLE_NAME'' then Some CredentialStoreLocation
      else if k = ''RP_ORIGIN_PARAMETER_PATH'' then Some RelyingPartyOrigin
      else None)"

definition supplies :: "RustFunction \<Rightarrow> ConfigItem \<Rightarrow> bool" where
  "supplies f item \<longleftrightarrow> Some item \<in> set (map (\<lambda>kv. config_item (fst kv)) (environment f))"

definition construct_keys :: "string list" where
  "construct_keys =
     [''BASE_PATH'', ''SESSION_TABLE_NAME'', ''USER_POOL_ID'', ''CREDENTIAL_TABLE_NAME'',
      ''RP_ORIGIN_PARAMETER_PATH'']"

text \<open>The variables that name a store, the directory or the origin parameter.\<close>

definition location_keys :: "string list" where
  "location_keys =
     [''SESSION_TABLE_NAME'', ''CREDENTIAL_TABLE_NAME'', ''USER_POOL_ID'',
      ''RP_ORIGIN_PARAMETER_PATH'']"

subsection \<open>An example stack\<close>

definition example_props :: CredentialsApiProps where
  "example_props =
     \<lparr>basePath = ''/auth/'',
      parameters = \<lparr>rpOriginParameter = \<lparr>parameterName = ''/passkey/rp-origin''\<rparr>\<rparr>,
      sessionStore = \<lparr>sessionTable = \<lparr>tableName = ''sessions''\<rparr>\<rparr>,
      userPool = \<lparr>UserPool.userPool = \<lparr>userPoolId = ''pool-1''\<rparr>,
                  credentialTable = \<lparr>tableName = ''credentials''\<rparr>\<rparr>,
      allowOrigins = [''https://example.com'']\<rparr>"

definition example_url :: string where
  "example_url = ''https://api.example.com/''"

text \<open>The instance that the constructor returns for the example props.\<close>

definition example_api :: CredentialsApi where
  "example_api =
     \<lparr>props = example_props,
      registrationLambda = new_RegistrationLambda example_props,
      discoverableLambda = new_DiscoverableLambda example_props,
      credentialsApi =
        \<lparr>description = ''API to manage credentials'',
         createDefaultStage = True,
         corsPreflight =
           \<lparr>allowHeaders = [''Content-Type''],
            allowMethods = [CorsHttpMethod_POST],
            allowOrigins = [''https://example.com''],
            maxAge = Days 1\<rparr>,
         defaultStage = Some \<lparr>url = ''https://api.example.com/''\<rparr>,
         routes =
           [\<lparr>routeMethod = HttpMethod_POST,
             routePath = ''/auth/registration/{proxy+}'',
             integration = \<lparr>integrationId = ''Registration'',
                            handler = new_RegistrationLambda example_props\<rparr>\<rparr>,
            \<lparr>routeMethod = HttpMethod_POST,
             routePath = ''/auth/discoverable/{proxy+}'',
             integration = \<lparr>integrationId = ''Discoverable'',
                            handler = new_DiscoverableLambda example_props\<rparr>\<rparr>]\<rparr>,
      grants = constructor_grants example_props\<rparr>"

text \<open>
  A reading that, beside the five variables of the construct, knows a variable
  \<open>SESSION_TTL\<close>.
\<close>

definition reading_with_ttl :: "string \<Rightarrow> ConfigItem option" where
  "reading_with_ttl k = (if k = ''SESSION_TTL'' then Some SessionTtl else config_item k)"

section \<open>The stores behind the ceremonies\<close>

text \<open>
  The Lambda functions themselves (the crate \<open>lambda/authentication\<close> with its
  binaries \<open>registration\<close> and \<open>discoverable\<close>) are represented by their manifest
  only. The two store operations below are therefore written from the specification.
\<close>

text \<open>
  Modelled from the spec: the error taxonomy of section 7; the Rust error type is missing.
\<close>

datatype Error =
    SessionNotFound | SessionExpired | SessionAlreadyConsumed | VerificationFailed
  | UnknownCredential | CredentialConflict | StaleSignCount
  | DirectoryUnavailable | DirectoryConflict

subsection \<open>Session Store\<close>

text \<open>
  Modelled from the spec: the Session record of section 3; the Rust type is missing.
  Timestamps are natural numbers and \<open>expires_at = created_at + TTL\<close> is the
  business of whoever creates the session.
\<close>

datatype SessionKind = Registration | Authentication

datatype SessionState = Pending | Consumed

record Session =
  id_session :: string
  challenge :: "8 word list"
  kind :: SessionKind
  user_handle :: "string option"
  created_at :: nat
  expires_at :: nat
  state :: SessionState




subsection \<open>Credential Store\<close>

text \<open>
  Modelled from the spec: the Credential record of section 3; the Rust type is missing.
  The sign count is the 32-bit counter the authenticator reports.
\<close>

record Credential =
  credential_id :: "8 word list"
  user_id :: string
  public_key :: "8 word list"
  sign_count :: "32 word"
  transports :: "string list"
  created_at :: nat

type_synonym CredentialStoreState = "8 word list \<rightharpoonup> Credential"

text \<open>
  Modelled from the spec: \<open>update_sign_count\<close> of the Credential Store (section 4.2);
  the Rust function is missing. An update with \<open>new_count \<le> sign_count\<close> is rejected
  unless both are \<open>0\<close>; a rejected update leaves the store as it was. The
  specification does not say what an unknown credential id gives; the caller has looked
  the credential up before, and the model answers \<open>UnknownCredential\<close>.
\<close>

definition update_sign_count ::
  "8 word list \<Rightarrow> 32 word \<Rightarrow> CredentialStoreState \<Rightarrow> (Error + unit) \<times> CredentialStoreState" where
  "update_sign_count cid new_count store =
     (case store cid of
        None \<Rightarrow> (Inl UnknownCredential, store)
      | Some c \<Rightarrow>
          if new_count \<le> sign_count c \<and> \<not> (new_count = 0 \<and> sign_count c = 0)
          then (Inl StaleSignCount, store)
          else (Inr (), store(cid \<mapsto> c\<lparr>sign_count := new_count\<rparr>)))"

subsection \<open>Example stores\<close>



definition credential_K1 :: Credential where
  "credential_K1 =
     \<lparr>credential_id = [0x4B, 0x31], user_id = ''alice'', public_key = [0x01, 0x02],
      sign_count = 4, transports = [''internal''], created_at = 0\<rparr>"

definition store_K1 :: CredentialStoreState where
  "store_K1 = Map.empty([0x4B, 0x31] \<mapsto> credential_K1)"

section \<open>What the constructor builds\<close>

lemma replace_trailing_slash_snoc: "replace_trailing_slash (b @ ''/'') = b"
  by (simp add: replace_trailing_slash_def)

lemma replace_trailing_slash_id:
  "b = [] \<or> last b \<noteq> CHR ''/'' \<Longrightarrow> replace_trailing_slash b = b"
  by (auto simp add: replace_trailing_slash_def)

lemma replace_leading_slash_Cons:
  "replace_leading_slash (c # r) = (if c = CHR ''/'' then [] else [c]) @ r"
  by (simp add: replace_leading_slash_def)

lemma replace_leading_slash_Nil: "replace_leading_slash [] = []"
  by (simp add: replace_leading_slash_def)

lemma startsWith_slash_replace_trailing:
  "(replace_trailing_slash b = [] \<or> startsWith_slash (replace_trailing_slash b)) \<longleftrightarrow>
   (b = [] \<or> startsWith_slash b)"
proof (cases b)
  case Nil
  then show ?thesis by (simp add: replace_trailing_slash_def)
next
  case (Cons x xs)
  then show ?thesis
    by (cases xs) (auto simp add: replace_trailing_slash_def startsWith_slash_def)
qed

lemma valid_registration_path:
  "valid_route_path (registrationBasePath p @ ''{proxy+}'') \<longleftrightarrow>
   (basePath p = [] \<or> startsWith_slash (basePath p))"
  using startsWith_slash_replace_trailing [of "basePath p"]
  by (cases "replace_trailing_slash (basePath p)")
     (auto simp add: valid_route_path_def registrationBasePath_def startsWith_slash_def
        endsWith_slash_def)

lemma valid_discoverable_path:
  "valid_route_path (discoverableBasePath p @ ''{proxy+}'') \<longleftrightarrow>
   (basePath p = [] \<or> startsWith_slash (basePath p))"
  using startsWith_slash_replace_trailing [of "basePath p"]
  by (cases "replace_trailing_slash (basePath p)")
     (auto simp add: valid_route_path_def discoverableBasePath_def startsWith_slash_def
        endsWith_slash_def)

lemma constructor_result:
  "CredentialsApi_constructor u p =
     (if basePath p = [] \<or> startsWith_slash (basePath p)
      then Inr \<lparr>props = p,
                registrationLambda = new_RegistrationLambda p,
                discoverableLambda = new_DiscoverableLambda p,
                credentialsApi =
                  \<lparr>description = ''API to manage credentials'',
                   createDefaultStage = True,
                   corsPreflight =
                     \<lparr>allowHeaders = [''Content-Type''],
                      allowMethods = [CorsHttpMethod_POST],
                      allowOrigins = CredentialsApiProps.allowOrigins p,
                      maxAge = Days 1\<rparr>,
                   defaultStage = Some \<lparr>url = u\<rparr>,
                   routes =
                     [\<lparr>routeMethod = HttpMethod_POST,
                       routePath = registrationBasePath p @ ''{proxy+}'',
                       integration = \<lparr>integrationId = ''Registration'',
                                      handler = new_RegistrationLambda p\<rparr>\<rparr>,
                      \<lparr>routeMethod = HttpMethod_POST,
                       routePath = discoverableBasePath p @ ''{proxy+}'',
                       integration = \<lparr>integrationId = ''Discoverable'',
                                      handler = new_DiscoverableLambda p\<rparr>\<rparr>]\<rparr>,
                grants = constructor_grants p\<rparr>
      else Inl RoutePathError)"
  by (simp add: CredentialsApi_constructor_def Let_def addRoutes_def HttpApi_constructor_def
      valid_registration_path valid_discoverable_path)

lemma constructor_succeeds:
  "(\<exists>c. CredentialsApi_constructor u p = Inr c) \<longleftrightarrow>
   (basePath p = [] \<or> startsWith_slash (basePath p))"
  by (simp add: constructor_result)

lemma constructor_fields:
  assumes "CredentialsApi_constructor u p = Inr c"
  shows "props c = p"
    and "registrationLambda c = new_RegistrationLambda p"
    and "discoverableLambda c = new_DiscoverableLambda p"
    and "grants c = constructor_grants p"
    and "defaultStage (credentialsApi c) = Some \<lparr>url = u\<rparr>"
    and "routes (credentialsApi c) =
           [\<lparr>routeMethod = HttpMethod_POST,
             routePath = (get_basePath c @ ''/registration/'') @ ''{proxy+}'',
             integration = \<lparr>integrationId = ''Registration'',
                            handler = registrationLambda c\<rparr>\<rparr>,
            \<lparr>routeMethod = HttpMethod_POST,
             routePath = (get_basePath c @ ''/discoverable/'') @ ''{proxy+}'',
             integration = \<lparr>integrationId = ''Discoverable'',
                            handler = discoverableLambda c\<rparr>\<rparr>]"
  using assms
  by (auto simp add: constructor_result get_basePath_def registrationBasePath_def
      discoverableBasePath_def split: if_splits)

lemma example_constructed: "CredentialsApi_constructor example_url example_props = Inr example_api"
  by (simp add: constructor_result example_api_def example_url_def)
     (simp add: example_props_def startsWith_slash_def registrationBasePath_def
        discoverableBasePath_def replace_trailing_slash_def)

lemma registration_neq_discoverable: "new_RegistrationLambda p \<noteq> new_DiscoverableLambda q"
  by (simp add: new_RegistrationLambda_def new_DiscoverableLambda_def)

lemma registration_environment:
  "environment (new_RegistrationLambda p) =
     [(''BASE_PATH'', replace_trailing_slash (basePath p) @ ''/registration/''),
      (''SESSION_TABLE_NAME'', tableName (sessionTable (sessionStore p))),
      (''USER_POOL_ID'', userPoolId (UserPool.userPool (CredentialsApiProps.userPool p))),
      (''CREDENTIAL_TABLE_NAME'', tableName (credentialTable (CredentialsApiProps.userPool p))),
      (''RP_ORIGIN_PARAMETER_PATH'', parameterName (rpOriginParameter (parameters p)))]"
  by (simp add: new_RegistrationLambda_def registrationBasePath_def)

lemma discoverable_environment:
  "environment (new_DiscoverableLambda p) =
     [(''BASE_PATH'', replace_trailing_slash (basePath p) @ ''/discoverable/''),
      (''SESSION_TABLE_NAME'', tableName (sessionTable (sessionStore p))),
      (''RP_ORIGIN_PARAMETER_PATH'', parameterName (rpOriginParameter (parameters p)))]"
  by (simp add: new_DiscoverableLambda_def discoverableBasePath_def)

lemma grants_of_registration:
  "grants_of (constructor_grants p) (new_RegistrationLambda p) =
     [GrantRead (rpOriginParameter (parameters p)) (new_RegistrationLambda p),
      GrantReadWriteData (sessionTable (sessionStore p)) (new_RegistrationLambda p),
      GrantReadWriteData (credentialTable (CredentialsApiProps.userPool p))
        (new_RegistrationLambda p),
      GrantActions (UserPool.userPool (CredentialsApiProps.userPool p))
        (new_RegistrationLambda p)
        [''cognito-idp:AdminCreateUser'', ''cognito-idp:AdminSetUserPassword'',
         ''cognito-idp:ListUsers'']]"
  using registration_neq_discoverable [of p p]
  by (simp add: grants_of_def constructor_grants_def)

lemma grants_of_discoverable:
  "grants_of (constructor_grants p) (new_DiscoverableLambda p) =
     [GrantRead (rpOriginParameter (parameters p)) (new_DiscoverableLambda p),
      GrantReadWriteData (sessionTable (sessionStore p)) (new_DiscoverableLambda p)]"
  using registration_neq_discoverable [of p p]
  by (simp add: grants_of_def constructor_grants_def)

lemma supplies_registration:
  "supplies (new_RegistrationLambda p) item \<longleftrightarrow>
     item \<in> {BasePathPrefix, SessionStoreLocation, IdentityDirectoryLocation,
              CredentialStoreLocation, RelyingPartyOrigin}"
  by (auto simp add: supplies_def registration_environment config_item_def)

lemma supplies_discoverable:
  "supplies (new_DiscoverableLambda p) item \<longleftrightarrow>
     item \<in> {BasePathPrefix, SessionStoreLocation, RelyingPartyOrigin}"
  by (auto simp add: supplies_def discoverable_environment config_item_def)

lemma basePath_of_result:
  "basePath_of u p =
     (if basePath p = [] \<or> startsWith_slash (basePath p)
      then Inr (replace_trailing_slash (basePath p)) else Inl RoutePathError)"
  by (simp add: basePath_of_def constructor_result get_basePath_def)

lemma internalUrl_of_result:
  "internalUrl_of u p =
     (if basePath p = [] \<or> startsWith_slash (basePath p)
      then Inr (u @ replace_leading_slash (basePath p)) else Inl RoutePathError)"
  by (simp add: internalUrl_of_def constructor_result get_internalUrl_def)

subsection \<open>Routing\<close>

lemma greedy_prefix_append: "greedy_prefix (xs @ ''{proxy+}'') = Some xs"
  by (simp add: greedy_prefix_def suffix_def)

lemma route_registration:
  assumes "CredentialsApi_constructor u p = Inr c"
  shows "route_request (credentialsApi c) HttpMethod_POST
           (get_basePath c @ ''/registration/'' @ x # rest) = [registrationLambda c]"
  unfolding route_request_def constructor_fields(6) [OF assms]
  by (simp add: matches_route_def greedy_prefix_append strict_prefix_def del: append_assoc)

lemma route_discoverable:
  assumes "CredentialsApi_constructor u p = Inr c"
  shows "route_request (credentialsApi c) HttpMethod_POST
           (get_basePath c @ ''/discoverable/'' @ x # rest) = [discoverableLambda c]"
  unfolding route_request_def constructor_fields(6) [OF assms]
  by (simp add: matches_route_def greedy_prefix_append strict_prefix_def del: append_assoc)

lemma route_other_method:
  assumes "CredentialsApi_constructor u p = Inr c" and "m \<noteq> HttpMethod_POST"
  shows "route_request (credentialsApi c) m reqPath = []"
  using assms(2) unfolding route_request_def constructor_fields(6) [OF assms(1)]
  by (simp add: matches_route_def)

subsection \<open>The stores\<close>





section \<open>The claims\<close>

subsection \<open>Session Store and Credential Store\<close>



text \<open>
  Claim C2. For a stored credential \<open>c\<close>, \<open>update_sign_count\<close> with the count \<open>n\<close>
  succeeds if and only if \<open>n\<close> is greater than the stored sign count or both are
  \<open>0\<close>; on success the stored sign count is \<open>n\<close>, and in every other case the
  result is \<open>StaleSignCount\<close> and the store, with it the sign count, is unchanged.
\<close>

theorem update_sign_count_iff:
  assumes "store cid = Some c"
  shows "(fst (update_sign_count cid n store) = Inr ()
            \<longleftrightarrow> sign_count c < n \<or> (n = 0 \<and> sign_count c = 0))
       \<and> (update_sign_count cid n store =
            (if sign_count c < n \<or> (n = 0 \<and> sign_count c = 0)
             then (Inr (), store(cid \<mapsto> c\<lparr>sign_count := n\<rparr>))
             else (Inl StaleSignCount, store)))"
  using assms by (auto simp add: update_sign_count_def not_le)

theorem update_sign_count_iff_witness:
  "update_sign_count [0x4B, 0x31] 5 store_K1 =
     (Inr (), store_K1([0x4B, 0x31] \<mapsto> credential_K1\<lparr>sign_count := 5\<rparr>))
   \<and> update_sign_count [0x4B, 0x31] 5
       (store_K1([0x4B, 0x31] \<mapsto> credential_K1\<lparr>sign_count := 5\<rparr>)) =
     (Inl StaleSignCount, store_K1([0x4B, 0x31] \<mapsto> credential_K1\<lparr>sign_count := 5\<rparr>))"
proof -
  have h1: "store_K1 [0x4B, 0x31] = Some credential_K1" by (simp add: store_K1_def)
  have h2: "(store_K1([0x4B, 0x31] \<mapsto> credential_K1\<lparr>sign_count := 5\<rparr>)) [0x4B, 0x31] =
              Some (credential_K1\<lparr>sign_count := 5\<rparr>)" by simp
  show ?thesis
    using update_sign_count_iff [of store_K1 "[0x4B, 0x31]" credential_K1 5, OF h1]
      update_sign_count_iff
        [of "store_K1([0x4B, 0x31] \<mapsto> credential_K1\<lparr>sign_count := 5\<rparr>)" "[0x4B, 0x31]"
            "credential_K1\<lparr>sign_count := 5\<rparr>" 5, OF h2]
    by (simp add: credential_K1_def)
qed

subsection \<open>What the Lambda functions are given\<close>

text \<open>
  Claim C3 as it is written: the discoverable Lambda is given the location of the
  credential table and access to it. On the example stack it is given neither: no
  variable of its environment locates the credential store or holds the name of the
  credential table, and the construct makes no grant on the credential table to it.
\<close>

theorem discoverable_credential_table_counterexample:
  "CredentialsApi_constructor example_url example_props = Inr example_api
   \<and> \<not> supplies (discoverableLambda example_api) CredentialStoreLocation
   \<and> ''credentials'' \<notin> snd ` set (environment (discoverableLambda example_api))
   \<and> GrantReadWriteData \<lparr>tableName = ''credentials''\<rparr> (discoverableLambda example_api)
       \<notin> set (grants example_api)"
  using registration_neq_discoverable [of example_props example_props]
  by (simp add: example_constructed)
     (simp add: example_api_def supplies_discoverable discoverable_environment
        constructor_grants_def example_props_def replace_trailing_slash_def)

text \<open>
  Claim C3, amended. For every props, the environment of the discoverable Lambda is
  \<open>BASE_PATH\<close>, \<open>SESSION_TABLE_NAME\<close> and \<open>RP_ORIGIN_PARAMETER_PATH\<close>, and its
  grants are the read of the origin parameter and the data access to the session table,
  nothing else. The variable \<open>CREDENTIAL_TABLE_NAME\<close> and the grant on the credential
  table go to the registration Lambda. An instance holds these Lambda functions and
  grants.
\<close>

theorem discoverable_lambda_provisioning:
  "environment (new_DiscoverableLambda p) =
     [(''BASE_PATH'', replace_trailing_slash (basePath p) @ ''/discoverable/''),
      (''SESSION_TABLE_NAME'', tableName (sessionTable (sessionStore p))),
      (''RP_ORIGIN_PARAMETER_PATH'', parameterName (rpOriginParameter (parameters p)))]
   \<and> grants_of (constructor_grants p) (new_DiscoverableLambda p) =
       [GrantRead (rpOriginParameter (parameters p)) (new_DiscoverableLambda p),
        GrantReadWriteData (sessionTable (sessionStore p)) (new_DiscoverableLambda p)]
   \<and> \<not> supplies (new_DiscoverableLambda p) CredentialStoreLocation
   \<and> map_of (environment (new_RegistrationLambda p)) ''CREDENTIAL_TABLE_NAME'' =
       Some (tableName (credentialTable (CredentialsApiProps.userPool p)))
   \<and> GrantReadWriteData (credentialTable (CredentialsApiProps.userPool p))
       (new_RegistrationLambda p) \<in> set (constructor_grants p)
   \<and> (CredentialsApi_constructor u p = Inr c \<longrightarrow>
        registrationLambda c = new_RegistrationLambda p
        \<and> discoverableLambda c = new_DiscoverableLambda p
        \<and> grants c = constructor_grants p)"
  by (simp add: discoverable_environment grants_of_discoverable supplies_discoverable
      registration_environment constructor_fields)
     (simp add: constructor_grants_def)

theorem discoverable_lambda_provisioning_witness:
  "environment (discoverableLambda example_api) =
     [(''BASE_PATH'', ''/auth/discoverable/''),
      (''SESSION_TABLE_NAME'', ''sessions''),
      (''RP_ORIGIN_PARAMETER_PATH'', ''/passkey/rp-origin'')]
   \<and> grants_of (grants example_api) (discoverableLambda example_api) =
       [GrantRead \<lparr>parameterName = ''/passkey/rp-origin''\<rparr> (discoverableLambda example_api),
        GrantReadWriteData \<lparr>tableName = ''sessions''\<rparr> (discoverableLambda example_api)]
   \<and> map_of (environment (registrationLambda example_api)) ''CREDENTIAL_TABLE_NAME'' =
       Some ''credentials''"
proof -
  have h: "CredentialsApi_constructor example_url example_props = Inr example_api"
    by (rule example_constructed)
  show ?thesis
    using h discoverable_lambda_provisioning
      [where p = example_props and u = example_url and c = example_api]
    by (simp add: example_props_def replace_trailing_slash_def)
qed

text \<open>
  Claim C4 as it is written: both Lambda environments supply the session-store location,
  the credential-store location, the relying-party origin and the session TTL. On the
  example stack no reading of the variable names makes this true: the environment of the
  discoverable Lambda has three variables and cannot carry four items.
\<close>

theorem all_four_items_counterexample:
  "\<not> (\<exists>reading.
        supplies_under reading (registrationLambda example_api) SessionStoreLocation
      \<and> supplies_under reading (registrationLambda example_api) CredentialStoreLocation
      \<and> supplies_under reading (registrationLambda example_api) RelyingPartyOrigin
      \<and> supplies_under reading (registrationLambda example_api) SessionTtl
      \<and> supplies_under reading (discoverableLambda example_api) SessionStoreLocation
      \<and> supplies_under reading (discoverableLambda example_api) CredentialStoreLocation
      \<and> supplies_under reading (discoverableLambda example_api) RelyingPartyOrigin
      \<and> supplies_under reading (discoverableLambda example_api) SessionTtl)"
proof
  assume "\<exists>reading.
        supplies_under reading (registrationLambda example_api) SessionStoreLocation
      \<and> supplies_under reading (registrationLambda example_api) CredentialStoreLocation
      \<and> supplies_under reading (registrationLambda example_api) RelyingPartyOrigin
      \<and> supplies_under reading (registrationLambda example_api) SessionTtl
      \<and> supplies_under reading (discoverableLambda example_api) SessionStoreLocation
      \<and> supplies_under reading (discoverableLambda example_api) CredentialStoreLocation
      \<and> supplies_under reading (discoverableLambda example_api) RelyingPartyOrigin
      \<and> supplies_under reading (discoverableLambda example_api) SessionTtl"
  then obtain reading where
    "supplies_under reading (discoverableLambda example_api) SessionStoreLocation"
    "supplies_under reading (discoverableLambda example_api) CredentialStoreLocation"
    "supplies_under reading (discoverableLambda example_api) RelyingPartyOrigin"
    "supplies_under reading (discoverableLambda example_api) SessionTtl"
    by blast
  then have sub:
    "{Some SessionStoreLocation, Some CredentialStoreLocation, Some RelyingPartyOrigin,
      Some SessionTtl} \<subseteq>
     {reading ''BASE_PATH'', reading ''SESSION_TABLE_NAME'', reading ''RP_ORIGIN_PARAMETER_PATH''}"
    by (simp add: example_api_def supplies_under_def discoverable_environment)
  have "card {Some SessionStoreLocation, Some CredentialStoreLocation, Some RelyingPartyOrigin,
      Some SessionTtl} \<le>
     card {reading ''BASE_PATH'', reading ''SESSION_TABLE_NAME'',
       reading ''RP_ORIGIN_PARAMETER_PATH''}"
    by (rule card_mono) (simp, rule sub)
  moreover have "card {Some SessionStoreLocation, Some CredentialStoreLocation,
      Some RelyingPartyOrigin, Some SessionTtl} = 4"
    by simp
  moreover have "card {reading ''BASE_PATH'', reading ''SESSION_TABLE_NAME'',
       reading ''RP_ORIGIN_PARAMETER_PATH''} \<le> 3"
    by (simp add: card_insert_if)
  ultimately show False by simp
qed

text \<open>
  Claim C4, amended. For every props, the environment of the registration Lambda is
  exactly the five variables listed and that of the discoverable Lambda exactly the three
  listed, each with the value shown. Both environments supply the session-store location
  and the relying-party origin, the latter as the name of the parameter that holds it;
  the registration Lambda alone is supplied the credential-store location; and under
  every reading that takes the five variables of the construct for what they are,
  neither environment supplies a session TTL. An instance holds these Lambda functions.
\<close>

theorem lambda_configuration_items:
  "environment (new_RegistrationLambda p) =
     [(''BASE_PATH'', replace_trailing_slash (basePath p) @ ''/registration/''),
      (''SESSION_TABLE_NAME'', tableName (sessionTable (sessionStore p))),
      (''USER_POOL_ID'', userPoolId (UserPool.userPool (CredentialsApiProps.userPool p))),
      (''CREDENTIAL_TABLE_NAME'', tableName (credentialTable (CredentialsApiProps.userPool p))),
      (''RP_ORIGIN_PARAMETER_PATH'', parameterName (rpOriginParameter (parameters p)))]
   \<and> environment (new_DiscoverableLambda p) =
     [(''BASE_PATH'', replace_trailing_slash (basePath p) @ ''/discoverable/''),
      (''SESSION_TABLE_NAME'', tableName (sessionTable (sessionStore p))),
      (''RP_ORIGIN_PARAMETER_PATH'', parameterName (rpOriginParameter (parameters p)))]
   \<and> supplies (new_RegistrationLambda p) SessionStoreLocation
   \<and> supplies (new_RegistrationLambda p) CredentialStoreLocation
   \<and> supplies (new_RegistrationLambda p) RelyingPartyOrigin
   \<and> supplies (new_DiscoverableLambda p) SessionStoreLocation
   \<and> supplies (new_DiscoverableLambda p) RelyingPartyOrigin
   \<and> \<not> supplies (new_DiscoverableLambda p) CredentialStoreLocation
   \<and> ((\<forall>k \<in> set construct_keys. reading k = config_item k) \<longrightarrow>
        \<not> supplies_under reading (new_RegistrationLambda p) SessionTtl
        \<and> \<not> supplies_under reading (new_DiscoverableLambda p) SessionTtl)
   \<and> (CredentialsApi_constructor u p = Inr c \<longrightarrow>
        registrationLambda c = new_RegistrationLambda p
        \<and> discoverableLambda c = new_DiscoverableLambda p)"
  by (simp add: registration_environment discoverable_environment supplies_registration
      supplies_discoverable constructor_fields)
     (simp add: supplies_under_def construct_keys_def config_item_def
        registration_environment discoverable_environment)

theorem lambda_configuration_items_witness:
  "environment (registrationLambda example_api) =
     [(''BASE_PATH'', ''/auth/registration/''),
      (''SESSION_TABLE_NAME'', ''sessions''),
      (''USER_POOL_ID'', ''pool-1''),
      (''CREDENTIAL_TABLE_NAME'', ''credentials''),
      (''RP_ORIGIN_PARAMETER_PATH'', ''/passkey/rp-origin'')]
   \<and> environment (discoverableLambda example_api) =
     [(''BASE_PATH'', ''/auth/discoverable/''),
      (''SESSION_TABLE_NAME'', ''sessions''),
      (''RP_ORIGIN_PARAMETER_PATH'', ''/passkey/rp-origin'')]
   \<and> reading_with_ttl ''SESSION_TTL'' = Some SessionTtl
   \<and> \<not> supplies_under reading_with_ttl (registrationLambda example_api) SessionTtl
   \<and> \<not> supplies_under reading_with_ttl (discoverableLambda example_api) SessionTtl"
proof -
  have h: "CredentialsApi_constructor example_url example_props = Inr example_api"
    by (rule example_constructed)
  have r: "\<forall>k \<in> set construct_keys. reading_with_ttl k = config_item k"
    by (simp add: construct_keys_def reading_with_ttl_def)
  show ?thesis
    using h r lambda_configuration_items
      [where p = example_props and u = example_url and c = example_api
         and reading = reading_with_ttl]
    by (simp add: example_props_def replace_trailing_slash_def reading_with_ttl_def)
qed

text \<open>
  Claim C6. The registration Lambda receives the id of the injected user pool as
  \<open>USER_POOL_ID\<close>; the construct makes exactly one user pool grant, to the
  registration Lambda, on the injected user pool, with the actions
  \<open>AdminCreateUser\<close>, \<open>AdminSetUserPassword\<close> and \<open>ListUsers\<close>. The
  discoverable Lambda has no variable \<open>USER_POOL_ID\<close>, none that locates the
  directory, and no user pool action. This holds of the Lambda functions and grants
  the constructor makes for any props, and an instance holds exactly these.
\<close>

theorem directory_access_registration_only:
  "map_of (environment (new_RegistrationLambda p)) ''USER_POOL_ID'' =
     Some (userPoolId (UserPool.userPool (CredentialsApiProps.userPool p)))
   \<and> filter (\<lambda>g. userPoolActions g \<noteq> []) (constructor_grants p) =
       [GrantActions (UserPool.userPool (CredentialsApiProps.userPool p))
          (new_RegistrationLambda p)
          [''cognito-idp:AdminCreateUser'', ''cognito-idp:AdminSetUserPassword'',
           ''cognito-idp:ListUsers'']]
   \<and> set (concat (map userPoolActions
         (grants_of (constructor_grants p) (new_RegistrationLambda p)))) =
       {''cognito-idp:ListUsers'', ''cognito-idp:AdminCreateUser'',
        ''cognito-idp:AdminSetUserPassword''}
   \<and> map_of (environment (new_DiscoverableLambda p)) ''USER_POOL_ID'' = None
   \<and> \<not> supplies (new_DiscoverableLambda p) IdentityDirectoryLocation
   \<and> concat (map userPoolActions
         (grants_of (constructor_grants p) (new_DiscoverableLambda p))) = []
   \<and> (CredentialsApi_constructor u p = Inr c \<longrightarrow>
        registrationLambda c = new_RegistrationLambda p
        \<and> discoverableLambda c = new_DiscoverableLambda p
        \<and> grants c = constructor_grants p)"
  by (simp add: registration_environment discoverable_environment
      grants_of_registration grants_of_discoverable supplies_discoverable constructor_fields)
    (auto simp add: constructor_grants_def)

theorem directory_access_registration_only_witness:
  "CredentialsApi_constructor example_url example_props = Inr example_api
   \<and> map_of (environment (registrationLambda example_api)) ''USER_POOL_ID'' = Some ''pool-1''
   \<and> filter (\<lambda>g. userPoolActions g \<noteq> []) (grants example_api) =
       [GrantActions \<lparr>userPoolId = ''pool-1''\<rparr> (registrationLambda example_api)
          [''cognito-idp:AdminCreateUser'', ''cognito-idp:AdminSetUserPassword'',
           ''cognito-idp:ListUsers'']]
   \<and> map_of (environment (discoverableLambda example_api)) ''USER_POOL_ID'' = None
   \<and> concat (map userPoolActions
         (grants_of (grants example_api) (discoverableLambda example_api))) = []"
proof -
  have h: "CredentialsApi_constructor example_url example_props = Inr example_api"
    by (rule example_constructed)
  show ?thesis
    using h directory_access_registration_only
      [where p = example_props and u = example_url and c = example_api]
    by (simp add: example_props_def)
qed

text \<open>
  Claim C7. Each location variable of either Lambda holds the corresponding member of
  the injected props, whatever the props are: the session table name, the credential
  table name, the user pool id and the name of the origin parameter. Two constructions
  give equal location variables exactly when those members of their props are equal,
  whatever else differs; so no location is a literal of the construct. An instance holds
  the Lambda functions made from its props.
\<close>

theorem locations_are_injected:
  "map (map_of (environment (new_RegistrationLambda p))) location_keys =
     [Some (tableName (sessionTable (sessionStore p))),
      Some (tableName (credentialTable (CredentialsApiProps.userPool p))),
      Some (userPoolId (UserPool.userPool (CredentialsApiProps.userPool p))),
      Some (parameterName (rpOriginParameter (parameters p)))]
   \<and> map_of (environment (new_DiscoverableLambda p)) ''SESSION_TABLE_NAME'' =
       Some (tableName (sessionTable (sessionStore p)))
   \<and> map_of (environment (new_DiscoverableLambda p)) ''RP_ORIGIN_PARAMETER_PATH'' =
       Some (parameterName (rpOriginParameter (parameters p)))
   \<and> (map (map_of (environment (new_RegistrationLambda p))) location_keys =
       map (map_of (environment (new_RegistrationLambda p'))) location_keys
      \<longleftrightarrow>
       tableName (sessionTable (sessionStore p)) = tableName (sessionTable (sessionStore p'))
       \<and> tableName (credentialTable (CredentialsApiProps.userPool p)) =
           tableName (credentialTable (CredentialsApiProps.userPool p'))
       \<and> userPoolId (UserPool.userPool (CredentialsApiProps.userPool p)) =
           userPoolId (UserPool.userPool (CredentialsApiProps.userPool p'))
       \<and> parameterName (rpOriginParameter (parameters p)) =
           parameterName (rpOriginParameter (parameters p')))
   \<and> (map (map_of (environment (new_DiscoverableLambda p)))
          [''SESSION_TABLE_NAME'', ''RP_ORIGIN_PARAMETER_PATH''] =
       map (map_of (environment (new_DiscoverableLambda p')))
          [''SESSION_TABLE_NAME'', ''RP_ORIGIN_PARAMETER_PATH'']
      \<longleftrightarrow>
       tableName (sessionTable (sessionStore p)) = tableName (sessionTable (sessionStore p'))
       \<and> parameterName (rpOriginParameter (parameters p)) =
           parameterName (rpOriginParameter (parameters p')))
   \<and> (CredentialsApi_constructor u p = Inr c \<longrightarrow>
        registrationLambda c = new_RegistrationLambda p
        \<and> discoverableLambda c = new_DiscoverableLambda p)"
  by (simp add: registration_environment discoverable_environment location_keys_def
      constructor_fields)

theorem locations_are_injected_witness:
  "CredentialsApi_constructor example_url example_props = Inr example_api
   \<and> map (map_of (environment (registrationLambda example_api))) location_keys =
       [Some ''sessions'', Some ''credentials'', Some ''pool-1'', Some ''/passkey/rp-origin'']
   \<and> map (map_of (environment (discoverableLambda example_api)))
         [''SESSION_TABLE_NAME'', ''RP_ORIGIN_PARAMETER_PATH''] =
       [Some ''sessions'', Some ''/passkey/rp-origin'']"
proof -
  have h: "CredentialsApi_constructor example_url example_props = Inr example_api"
    by (rule example_constructed)
  show ?thesis
    using h locations_are_injected
      [where p = example_props and u = example_url and c = example_api]
    by (simp add: example_props_def)
qed

subsection \<open>Routes and base path\<close>

text \<open>
  Claim C5 as it is written speaks of every base path. With the base path \<open>auth\<close> the
  route path does not start with a slash, \<open>addRoutes\<close> throws, and there is no
  instance and no HTTP API.
\<close>

theorem relative_base_path_counterexample:
  "CredentialsApi_constructor example_url (example_props\<lparr>basePath := ''auth''\<rparr>) =
     Inl RoutePathError
   \<and> \<not> (\<exists>c. CredentialsApi_constructor example_url (example_props\<lparr>basePath := ''auth''\<rparr>) =
            Inr c)"
  by (simp add: constructor_result startsWith_slash_def)

text \<open>
  Claim C5, amended. The construction succeeds exactly for a base path that is empty or
  starts with a slash. Then, with \<open>base\<close> the base path of the construct (the getter,
  without the trailing slash), the HTTP API has exactly two routes, both with method
  POST: \<open>base/registration/{proxy+}\<close> to the registration Lambda and
  \<open>base/discoverable/{proxy+}\<close> to the discoverable Lambda. A POST to any of the four
  ceremony endpoints, and to any other path under the two prefixes, reaches the Lambda
  of its prefix and no other; a request with another method reaches no Lambda.
\<close>

theorem ceremony_routes_are_post:
  assumes "CredentialsApi_constructor u p = Inr c"
  shows "routes (credentialsApi c) =
     [\<lparr>routeMethod = HttpMethod_POST,
       routePath = get_basePath c @ ''/registration/{proxy+}'',
       integration = \<lparr>integrationId = ''Registration'', handler = registrationLambda c\<rparr>\<rparr>,
      \<lparr>routeMethod = HttpMethod_POST,
       routePath = get_basePath c @ ''/discoverable/{proxy+}'',
       integration = \<lparr>integrationId = ''Discoverable'', handler = discoverableLambda c\<rparr>\<rparr>]
   \<and> route_request (credentialsApi c) HttpMethod_POST
        (get_basePath c @ ''/registration/start'') = [registrationLambda c]
   \<and> route_request (credentialsApi c) HttpMethod_POST
        (get_basePath c @ ''/registration/finish'') = [registrationLambda c]
   \<and> route_request (credentialsApi c) HttpMethod_POST
        (get_basePath c @ ''/discoverable/start'') = [discoverableLambda c]
   \<and> route_request (credentialsApi c) HttpMethod_POST
        (get_basePath c @ ''/discoverable/finish'') = [discoverableLambda c]
   \<and> route_request (credentialsApi c) HttpMethod_POST
        (get_basePath c @ ''/registration/'' @ x # rest) = [registrationLambda c]
   \<and> route_request (credentialsApi c) HttpMethod_POST
        (get_basePath c @ ''/discoverable/'' @ x # rest) = [discoverableLambda c]
   \<and> route_request (credentialsApi c) m reqPath =
       (if m = HttpMethod_POST
        then route_request (credentialsApi c) HttpMethod_POST reqPath
        else [])
   \<and> get_basePath c = replace_trailing_slash (basePath p)
   \<and> (basePath p = [] \<or> startsWith_slash (basePath p))
   \<and> ((\<exists>c'. CredentialsApi_constructor u' p' = Inr c') \<longleftrightarrow>
        basePath p' = [] \<or> startsWith_slash (basePath p'))"
  using route_registration [OF assms, of "CHR ''s''" "''tart''"]
    route_registration [OF assms, of "CHR ''f''" "''inish''"]
    route_discoverable [OF assms, of "CHR ''s''" "''tart''"]
    route_discoverable [OF assms, of "CHR ''f''" "''inish''"]
    route_registration [OF assms, of x rest] route_discoverable [OF assms, of x rest]
    route_other_method [OF assms, of m reqPath]
    constructor_fields(1,6) [OF assms] constructor_succeeds [of u p] assms
    constructor_succeeds [of u' p']
  by (simp add: get_basePath_def)

theorem ceremony_routes_are_post_witness:
  "CredentialsApi_constructor example_url example_props = Inr example_api
   \<and> map routePath (routes (credentialsApi example_api)) =
       [''/auth/registration/{proxy+}'', ''/auth/discoverable/{proxy+}'']
   \<and> map routeMethod (routes (credentialsApi example_api)) = [HttpMethod_POST, HttpMethod_POST]
   \<and> route_request (credentialsApi example_api) HttpMethod_POST ''/auth/registration/start'' =
       [registrationLambda example_api]
   \<and> route_request (credentialsApi example_api) HttpMethod_POST ''/auth/discoverable/finish'' =
       [discoverableLambda example_api]
   \<and> route_request (credentialsApi example_api) HttpMethod_GET ''/auth/registration/start'' = []"
proof -
  have h: "CredentialsApi_constructor example_url example_props = Inr example_api"
    by (rule example_constructed)
  have b: "get_basePath example_api = ''/auth''"
    by (simp add: get_basePath_def example_api_def example_props_def replace_trailing_slash_def)
  show ?thesis
    using h ceremony_routes_are_post
      [OF h, where m = HttpMethod_GET and reqPath = "''/auth/registration/start''"
         and u' = example_url and p' = example_props]
    by (simp add: b)
qed

text \<open>
  Claim C8. For a base path \<open>b\<close> that does not end in a slash, the constructions from
  \<open>b\<close> and from \<open>b\<close> followed by one slash have the same outcome: both throw at
  \<open>addRoutes\<close>, when \<open>b\<close> is neither empty nor starts with a slash, or both
  succeed with the route paths \<open>b/registration/{proxy+}\<close> and
  \<open>b/discoverable/{proxy+}\<close>. The two Lambda functions made are the same in both
  constructions, with \<open>BASE_PATH\<close> \<open>b/registration/\<close> and \<open>b/discoverable/\<close>.
\<close>

theorem base_path_trailing_slash_insensitive:
  assumes "b = [] \<or> last b \<noteq> CHR ''/''"
  shows "map_sum id (\<lambda>c. map routePath (routes (credentialsApi c)))
           (CredentialsApi_constructor u (p\<lparr>basePath := b @ ''/''\<rparr>)) =
         map_sum id (\<lambda>c. map routePath (routes (credentialsApi c)))
           (CredentialsApi_constructor u (p\<lparr>basePath := b\<rparr>))
       \<and> map_sum id (\<lambda>c. map_of (environment (registrationLambda c)) ''BASE_PATH'')
           (CredentialsApi_constructor u (p\<lparr>basePath := b @ ''/''\<rparr>)) =
         map_sum id (\<lambda>c. map_of (environment (registrationLambda c)) ''BASE_PATH'')
           (CredentialsApi_constructor u (p\<lparr>basePath := b\<rparr>))
       \<and> map_sum id (\<lambda>c. map_of (environment (discoverableLambda c)) ''BASE_PATH'')
           (CredentialsApi_constructor u (p\<lparr>basePath := b @ ''/''\<rparr>)) =
         map_sum id (\<lambda>c. map_of (environment (discoverableLambda c)) ''BASE_PATH'')
           (CredentialsApi_constructor u (p\<lparr>basePath := b\<rparr>))
       \<and> map_sum id (\<lambda>c. map routePath (routes (credentialsApi c)))
           (CredentialsApi_constructor u (p\<lparr>basePath := b\<rparr>)) =
         (if b = [] \<or> startsWith_slash b
          then Inr [b @ ''/registration/{proxy+}'', b @ ''/discoverable/{proxy+}'']
          else Inl RoutePathError)
       \<and> new_RegistrationLambda (p\<lparr>basePath := b @ ''/''\<rparr>) =
         new_RegistrationLambda (p\<lparr>basePath := b\<rparr>)
       \<and> new_DiscoverableLambda (p\<lparr>basePath := b @ ''/''\<rparr>) =
         new_DiscoverableLambda (p\<lparr>basePath := b\<rparr>)
       \<and> map_of (environment (new_RegistrationLambda (p\<lparr>basePath := b\<rparr>))) ''BASE_PATH'' =
         Some (b @ ''/registration/'')
       \<and> map_of (environment (new_DiscoverableLambda (p\<lparr>basePath := b\<rparr>))) ''BASE_PATH'' =
         Some (b @ ''/discoverable/'')"
proof -
  have same: "replace_trailing_slash (b @ ''/'') = replace_trailing_slash b"
    using replace_trailing_slash_id [OF assms] by (simp add: replace_trailing_slash_snoc)
  have keep: "replace_trailing_slash b = b"
    by (rule replace_trailing_slash_id [OF assms])
  have ok: "(b @ ''/'' = [] \<or> startsWith_slash (b @ ''/'')) \<longleftrightarrow> (b = [] \<or> startsWith_slash b)"
    by (cases b) (simp_all add: startsWith_slash_def)
  have reg: "new_RegistrationLambda (p\<lparr>basePath := b @ ''/''\<rparr>) =
             new_RegistrationLambda (p\<lparr>basePath := b\<rparr>)"
    using same by (simp add: new_RegistrationLambda_def registrationBasePath_def)
  have disc: "new_DiscoverableLambda (p\<lparr>basePath := b @ ''/''\<rparr>) =
              new_DiscoverableLambda (p\<lparr>basePath := b\<rparr>)"
    using same by (simp add: new_DiscoverableLambda_def discoverableBasePath_def)
  show ?thesis
    using ok reg disc same keep
    by (simp add: constructor_result registrationBasePath_def discoverableBasePath_def
        registration_environment discoverable_environment)
qed

theorem base_path_trailing_slash_insensitive_witness:
  "map_sum id (\<lambda>c. map routePath (routes (credentialsApi c)))
     (CredentialsApi_constructor example_url (example_props\<lparr>basePath := ''/auth/''\<rparr>)) =
   Inr [''/auth/registration/{proxy+}'', ''/auth/discoverable/{proxy+}'']
   \<and> map_sum id (\<lambda>c. map routePath (routes (credentialsApi c)))
     (CredentialsApi_constructor example_url (example_props\<lparr>basePath := ''/auth''\<rparr>)) =
   Inr [''/auth/registration/{proxy+}'', ''/auth/discoverable/{proxy+}'']
   \<and> map_sum id (\<lambda>c. map_of (environment (registrationLambda c)) ''BASE_PATH'')
     (CredentialsApi_constructor example_url (example_props\<lparr>basePath := ''/auth/''\<rparr>)) =
   map_sum id (\<lambda>c. map_of (environment (registrationLambda c)) ''BASE_PATH'')
     (CredentialsApi_constructor example_url (example_props\<lparr>basePath := ''/auth''\<rparr>))
   \<and> map_of (environment (new_RegistrationLambda (example_props\<lparr>basePath := ''/auth/''\<rparr>)))
       ''BASE_PATH'' = Some ''/auth/registration/''
   \<and> map_of (environment (new_DiscoverableLambda (example_props\<lparr>basePath := ''/auth/''\<rparr>)))
       ''BASE_PATH'' = Some ''/auth/discoverable/''"
proof -
  have h: "''/auth'' = [] \<or> last ''/auth'' \<noteq> CHR ''/''" by simp
  show ?thesis
    using base_path_trailing_slash_insensitive
      [where b = "''/auth''" and u = example_url and p = example_props, OF h]
    by (simp add: startsWith_slash_def)
qed

text \<open>
  Claim C9. The getter \<open>basePath\<close> returns the configured base path without its last
  character when that is a slash, and unchanged otherwise. One slash only is removed: a
  base path ending in two slashes comes back ending in one. This holds of every object
  with such props; an instance has the props it was constructed with, and for the base
  paths that start with a slash the instance exists and its getter returns as stated.
\<close>

theorem basePath_strips_one_trailing_slash:
  "get_basePath (c\<lparr>props := p\<lparr>basePath := b @ ''/''\<rparr>\<rparr>) = b
   \<and> (b = [] \<or> last b \<noteq> CHR ''/'' \<longrightarrow>
        get_basePath (c\<lparr>props := p\<lparr>basePath := b\<rparr>\<rparr>) = b)
   \<and> get_basePath (c\<lparr>props := p\<lparr>basePath := b @ ''//''\<rparr>\<rparr>) = b @ ''/''
   \<and> (CredentialsApi_constructor u p = Inr c' \<longrightarrow>
        props c' = p \<and> c'\<lparr>props := p\<rparr> = c')
   \<and> basePath_of u (p\<lparr>basePath := CHR ''/'' # b @ ''/''\<rparr>) = Inr (CHR ''/'' # b)
   \<and> (b \<noteq> [] \<and> last b \<noteq> CHR ''/'' \<longrightarrow>
        basePath_of u (p\<lparr>basePath := CHR ''/'' # b\<rparr>) = Inr (CHR ''/'' # b))
   \<and> basePath_of u (p\<lparr>basePath := CHR ''/'' # b @ ''//''\<rparr>) = Inr (CHR ''/'' # b @ ''/'')
   \<and> basePath_of u (p\<lparr>basePath := []\<rparr>) = Inr []"
  using replace_trailing_slash_snoc [of "b @ ''/''"] replace_trailing_slash_snoc [of "CHR ''/'' # b"]
    replace_trailing_slash_snoc [of "CHR ''/'' # b @ ''/''"]
  by (auto simp add: get_basePath_def replace_trailing_slash_snoc replace_trailing_slash_id
      constructor_fields basePath_of_result startsWith_slash_def)

theorem basePath_strips_one_trailing_slash_witness:
  "basePath_of example_url (example_props\<lparr>basePath := ''/auth/''\<rparr>) = Inr ''/auth''
   \<and> basePath_of example_url (example_props\<lparr>basePath := ''/auth''\<rparr>) = Inr ''/auth''
   \<and> basePath_of example_url (example_props\<lparr>basePath := ''/auth//''\<rparr>) = Inr ''/auth/''
   \<and> CredentialsApi_constructor example_url example_props = Inr example_api
   \<and> get_basePath example_api = ''/auth''"
proof -
  have h: "CredentialsApi_constructor example_url example_props = Inr example_api"
    by (rule example_constructed)
  have e: "example_props\<lparr>basePath := ''/auth'' @ ''/''\<rparr> = example_props"
    by (simp add: example_props_def)
  show ?thesis
    using h e basePath_strips_one_trailing_slash
      [where c = example_api and p = example_props and b = "''/auth''" and u = example_url
         and c' = example_api]
      basePath_strips_one_trailing_slash
      [where c = example_api and p = example_props and b = "''auth''" and u = example_url
         and c' = example_api]
    by simp
qed

text \<open>
  Claim C10 as it is written has the trailing slashes of every base path preserved by
  \<open>internalUrl\<close>, unlike by the getter \<open>basePath\<close>. For the base path \<open>/\<close> the one
  slash is the leading one: \<open>internalUrl\<close> is the stage URL with nothing after it,
  and the getter \<open>basePath\<close> drops the slash as well.
\<close>

theorem internalUrl_root_counterexample:
  "internalUrl_of example_url (example_props\<lparr>basePath := ''/''\<rparr>) = Inr example_url
   \<and> basePath_of example_url (example_props\<lparr>basePath := ''/''\<rparr>) = Inr []
   \<and> \<not> (\<exists>x. internalUrl_of example_url (example_props\<lparr>basePath := ''/''\<rparr>) =
            Inr (example_url @ x @ ''/''))"
  by (simp add: internalUrl_of_result basePath_of_result startsWith_slash_def
      replace_leading_slash_def replace_trailing_slash_def)

text \<open>
  Claim C10, amended. The getter \<open>internalUrl\<close> returns the URL of the default stage,
  which every instance has, followed by the configured base path without its first
  character when that is a slash: one leading slash only is removed, and everything
  after the first character is kept. A trailing slash that follows the first character
  is therefore kept, while the getter \<open>basePath\<close> removes it; for the base path
  \<open>/\<close> both getters drop the only slash.
\<close>

theorem internalUrl_strips_one_leading_slash:
  "internalUrl_of u (p\<lparr>basePath := []\<rparr>) = Inr u
   \<and> internalUrl_of u (p\<lparr>basePath := CHR ''/'' # r\<rparr>) = Inr (u @ r)
   \<and> internalUrl_of u (p\<lparr>basePath := CHR ''/'' # r @ ''/''\<rparr>) = Inr (u @ r @ ''/'')
   \<and> basePath_of u (p\<lparr>basePath := CHR ''/'' # r @ ''/''\<rparr>) = Inr (CHR ''/'' # r)
   \<and> internalUrl_of u (p\<lparr>basePath := ''/''\<rparr>) = Inr u
   \<and> basePath_of u (p\<lparr>basePath := ''/''\<rparr>) = Inr []
   \<and> (defaultStage (credentialsApi c) = Some \<lparr>url = u\<rparr> \<longrightarrow>
        get_internalUrl (c\<lparr>props := p\<lparr>basePath := x # r\<rparr>\<rparr>) =
          Inr (u @ (if x = CHR ''/'' then [] else [x]) @ r))
   \<and> (CredentialsApi_constructor u p = Inr c' \<longrightarrow>
        defaultStage (credentialsApi c') = Some \<lparr>url = u\<rparr> \<and> props c' = p)"
  using replace_trailing_slash_snoc [of "CHR ''/'' # r"] replace_trailing_slash_snoc [of "[]"]
  by (auto simp add: internalUrl_of_result basePath_of_result startsWith_slash_def
      replace_leading_slash_Cons replace_leading_slash_Nil get_internalUrl_def
      constructor_fields)

theorem internalUrl_strips_one_leading_slash_witness:
  "CredentialsApi_constructor example_url example_props = Inr example_api
   \<and> get_internalUrl example_api = Inr ''https://api.example.com/auth/''
   \<and> get_basePath example_api = ''/auth''
   \<and> internalUrl_of example_url (example_props\<lparr>basePath := ''//auth''\<rparr>) =
       Inr ''https://api.example.com//auth''"
proof -
  have h: "CredentialsApi_constructor example_url example_props = Inr example_api"
    by (rule example_constructed)
  have e: "example_api\<lparr>props := example_props\<lparr>basePath := CHR ''/'' # ''auth/''\<rparr>\<rparr> = example_api"
    by (simp add: example_api_def example_props_def)
  have b: "get_basePath example_api = ''/auth''"
    by (simp add: get_basePath_def example_api_def example_props_def replace_trailing_slash_def)
  show ?thesis
    using h e b internalUrl_strips_one_leading_slash
      [where u = example_url and p = example_props and r = "''auth/''" and x = "CHR ''/''"
         and c = example_api and c' = example_api]
      internalUrl_strips_one_leading_slash
      [where u = example_url and p = example_props and r = "''/auth''" and x = "CHR ''/''"
         and c = example_api and c' = example_api]
    by (simp add: example_url_def)
qed

end
